theory Spec2Isabelle
  imports Main
begin

section \<open>JavaScript values\<close>

text \<open>
  The documents, headers and options handled by \<^verbatim>\<open>sign.js\<close> and \<^verbatim>\<open>verify.js\<close> are
  JSON-like JavaScript values.  An object is the list of its own enumerable properties
  in insertion order, which is the order \<^verbatim>\<open>Object.keys\<close> and \<^verbatim>\<open>JSON.stringify\<close> follow
  for property names that are not array indices.  Numbers are integers; floating point
  is not modelled.
\<close>

datatype jsval =
    JUndef
  | JNull
  | JBool bool
  | JNum int
  | JStr string
  | JArr "jsval list"
  | JObj "(string \<times> jsval) list"

type_synonym obj = "(string \<times> jsval) list"

datatype error = Error string | TypeError string | ReferenceError string

fun message :: "error \<Rightarrow> string" where
  "message (Error m) = m"
| "message (TypeError m) = m"
| "message (ReferenceError m) = m"

text \<open>The outcome of a call that returns a promise: it can throw before any promise
  exists, or return a promise that is later rejected or fulfilled.\<close>

datatype 'a outcome = Throws error | Rejects error | Resolves 'a

text \<open>Truthiness, as tested by \<^verbatim>\<open>if (x)\<close>, \<^verbatim>\<open>!x\<close> and \<^verbatim>\<open>x || y\<close>.\<close>

fun truthy :: "jsval \<Rightarrow> bool" where
  "truthy JUndef = False"
| "truthy JNull = False"
| "truthy (JBool b) = b"
| "truthy (JNum n) = (n \<noteq> 0)"
| "truthy (JStr s) = (s \<noteq> [])"
| "truthy (JArr _) = True"
| "truthy (JObj _) = True"

text \<open>
  Strict equality \<^verbatim>\<open>a === b\<close>.  Primitives compare by value.  Objects and arrays
  compare by reference; the two operands of the comparison in \<^verbatim>\<open>sign\<close> come from the
  headers of two different resolved signatories, which \<^verbatim>\<open>createSign\<close> builds with
  \<^verbatim>\<open>merge\<close>, copying every plain object and array, so they are never the same
  reference.
\<close>

fun strict_eq :: "jsval \<Rightarrow> jsval \<Rightarrow> bool" where
  "strict_eq JUndef JUndef = True"
| "strict_eq JNull JNull = True"
| "strict_eq (JBool a) (JBool b) = (a = b)"
| "strict_eq (JNum a) (JNum b) = (a = b)"
| "strict_eq (JStr a) (JStr b) = (a = b)"
| "strict_eq _ _ = False"

text \<open>\<^verbatim>\<open>isObject\<close> of both source files.\<close>

fun isObject :: "jsval \<Rightarrow> bool" where
  "isObject (JObj _) = True"
| "isObject _ = False"

subsection \<open>Properties of objects\<close>

definition object_keys :: "obj \<Rightarrow> string list" where
  "object_keys ob = map fst ob"

definition has_prop :: "obj \<Rightarrow> string \<Rightarrow> bool" where
  "has_prop ob k = (k \<in> set (map fst ob))"

definition get_prop :: "obj \<Rightarrow> string \<Rightarrow> jsval" where
  "get_prop ob k = (case map_of ob k of None \<Rightarrow> JUndef | Some v \<Rightarrow> v)"

text \<open>\<^verbatim>\<open>ob[k] = v\<close>: an existing property keeps its place, a new one goes last.\<close>

fun set_prop :: "obj \<Rightarrow> string \<Rightarrow> jsval \<Rightarrow> obj" where
  "set_prop [] k v = [(k, v)]"
| "set_prop ((k', v') # ob) k v =
     (if k' = k then (k, v) # ob else (k', v') # set_prop ob k v)"

text \<open>\<^verbatim>\<open>delete ob[k]\<close>.\<close>

definition delete_prop :: "obj \<Rightarrow> string \<Rightarrow> obj" where
  "delete_prop ob k = filter (\<lambda>p. fst p \<noteq> k) ob"

text \<open>\<^verbatim>\<open>x.k\<close> on any value: reading a property of \<^verbatim>\<open>undefined\<close> or \<^verbatim>\<open>null\<close> throws;
  a primitive or an array has none of the names read in these files.\<close>

fun member :: "jsval \<Rightarrow> string \<Rightarrow> error + jsval" where
  "member JUndef k = Inl (TypeError (''Cannot read property '' @ k @ '' of undefined''))"
| "member JNull k = Inl (TypeError (''Cannot read property '' @ k @ '' of null''))"
| "member (JObj ob) k = Inr (get_prop ob k)"
| "member _ k = Inr JUndef"

text \<open>\<^verbatim>\<open>x.k = v\<close> in strict mode (both files start with \<^verbatim>\<open>"use strict"\<close>): it throws
  on \<^verbatim>\<open>undefined\<close>, \<^verbatim>\<open>null\<close> and on a primitive.  A named property stored on an array
  is not part of the array's JSON value, so the array is returned as it is.\<close>

fun assign_prop :: "jsval \<Rightarrow> string \<Rightarrow> jsval \<Rightarrow> error + jsval" where
  "assign_prop (JObj ob) k v = Inr (JObj (set_prop ob k v))"
| "assign_prop (JArr xs) k v = Inr (JArr xs)"
| "assign_prop _ k v = Inl (TypeError (''Cannot set property '' @ k))"

subsection \<open>The lodash helpers\<close>

text \<open>\<^verbatim>\<open>omit(ob, ks)\<close>: a new object with the properties of \<^verbatim>\<open>ob\<close> whose names are
  not in \<^verbatim>\<open>ks\<close>.\<close>

definition omit :: "obj \<Rightarrow> string list \<Rightarrow> obj" where
  "omit ob ks = filter (\<lambda>p. fst p \<notin> set ks) ob"

text \<open>\<^verbatim>\<open>uniq\<close> keeps the first occurrence of each element.\<close>

definition uniq :: "'a list \<Rightarrow> 'a list" where
  "uniq xs = rev (remdups (rev xs))"

text \<open>\<^verbatim>\<open>intersection(...arrays)\<close>: the unique elements of the first array that are in
  every other array, in the order of the first array; no array gives the empty list.\<close>

fun intersection :: "'a list list \<Rightarrow> 'a list" where
  "intersection [] = []"
| "intersection (xs # xss) = uniq (filter (\<lambda>x. \<forall>ys \<in> set xss. x \<in> set ys) xs)"

text \<open>
  \<^verbatim>\<open>merge(object, ...sources)\<close> stores each property of a source in \<^verbatim>\<open>object\<close>, which it
  changes in place and returns.  Plain objects and arrays are merged recursively into
  the value already there (or into a fresh one), any other value replaces the old one,
  and \<^verbatim>\<open>undefined\<close> never replaces an existing property.  A source object over a
  destination array would add named properties to the array, which a JSON value does
  not show: the array is kept.
\<close>

fun merge_value :: "jsval \<Rightarrow> jsval \<Rightarrow> jsval"
  and merge_props :: "obj \<Rightarrow> obj \<Rightarrow> obj"
  and merge_elems :: "jsval list \<Rightarrow> jsval list \<Rightarrow> jsval list" where
  "merge_value ov (JObj s) =
     (case ov of JObj d \<Rightarrow> JObj (merge_props d s)
               | JArr a \<Rightarrow> JArr a
               | _ \<Rightarrow> JObj (merge_props [] s))"
| "merge_value ov (JArr xs) =
     (case ov of JArr d \<Rightarrow> JArr (merge_elems d xs)
               | _ \<Rightarrow> JArr (merge_elems [] xs))"
| "merge_value ov JUndef = JUndef"
| "merge_value ov JNull = JNull"
| "merge_value ov (JBool b) = JBool b"
| "merge_value ov (JNum n) = JNum n"
| "merge_value ov (JStr t) = JStr t"
| "merge_props d [] = d"
| "merge_props d (p # s) =
     (let v = merge_value (get_prop d (fst p)) (snd p)
      in merge_props
           (if v \<noteq> JUndef \<or> \<not> has_prop d (fst p) then set_prop d (fst p) v else d) s)"
| "merge_elems d [] = d"
| "merge_elems [] (x # xs) = merge_value JUndef x # merge_elems [] xs"
| "merge_elems (y # ys) (x # xs) =
     (let v = merge_value y x in (if v \<noteq> JUndef then v else y) # merge_elems ys xs)"

text \<open>An optional source: \<^verbatim>\<open>merge\<close> skips a source that is \<^verbatim>\<open>undefined\<close>.\<close>

definition merge_opt :: "obj \<Rightarrow> obj option \<Rightarrow> obj" where
  "merge_opt d src = (case src of None \<Rightarrow> d | Some s \<Rightarrow> merge_props d s)"

subsection \<open>Strings of values\<close>

definition digit_char :: "nat \<Rightarrow> char" where
  "digit_char d = char_of (48 + d)"

fun nat_str :: "nat \<Rightarrow> string" where
  "nat_str n = (if n < 10 then [digit_char n] else nat_str (n div 10) @ [digit_char (n mod 10)])"

definition int_str :: "int \<Rightarrow> string" where
  "int_str i = (if i < 0 then CHR ''-'' # nat_str (nat (- i)) else nat_str (nat i))"

fun join :: "string \<Rightarrow> string list \<Rightarrow> string" where
  "join sep [] = []"
| "join sep [x] = x"
| "join sep (x # y # ys) = x @ sep @ join sep (y # ys)"

text \<open>The string that \<^verbatim>\<open>"..." + x\<close> appends for a value \<^verbatim>\<open>x\<close>.\<close>

fun to_string :: "jsval \<Rightarrow> string" where
  "to_string JUndef = ''undefined''"
| "to_string JNull = ''null''"
| "to_string (JBool b) = (if b then ''true'' else ''false'')"
| "to_string (JNum n) = int_str n"
| "to_string (JStr s) = s"
| "to_string (JArr xs) =
     join '','' (map (\<lambda>x. if x = JUndef \<or> x = JNull then [] else to_string x) xs)"
| "to_string (JObj ob) = ''[object Object]''"

text \<open>The own enumerable properties that \<^verbatim>\<open>omit\<close> copies from a value that need not be
  a plain object: the indices of an array or of a string, nothing for the rest.\<close>

definition indexed :: "jsval list \<Rightarrow> obj" where
  "indexed xs = zip (map nat_str [0 ..< length xs]) xs"

fun own_props :: "jsval \<Rightarrow> obj" where
  "own_props (JObj ob) = ob"
| "own_props (JArr xs) = indexed xs"
| "own_props (JStr s) = indexed (map (\<lambda>c. JStr [c]) s)"
| "own_props _ = []"

text \<open>\<^verbatim>\<open>x[0]\<close>.\<close>

fun elem0 :: "jsval \<Rightarrow> error + jsval" where
  "elem0 JUndef = Inl (TypeError ''Cannot read property 0 of undefined'')"
| "elem0 JNull = Inl (TypeError ''Cannot read property 0 of null'')"
| "elem0 (JArr []) = Inr JUndef"
| "elem0 (JArr (x # xs)) = Inr x"
| "elem0 (JStr []) = Inr JUndef"
| "elem0 (JStr (c # cs)) = Inr (JStr [c])"
| "elem0 (JObj ob) = Inr (get_prop ob ''0'')"
| "elem0 _ = Inr JUndef"

section \<open>Signing: the global headers\<close>

text \<open>
  Lines 66 to 80 of \<^verbatim>\<open>sign.js\<close>.  For each key common to all headers the values are
  folded with \<^verbatim>\<open>values.reduce((a, b) => a === b)\<close>: the accumulator starts as the
  first value and is the boolean of the last comparison from then on.  The key goes to
  the global headers, with the first signer's value, when the result is truthy.
\<close>

definition reduce_strict_eq :: "jsval \<Rightarrow> jsval list \<Rightarrow> jsval" where
  "reduce_strict_eq v vs = foldl (\<lambda>a b. JBool (strict_eq a b)) v vs"

definition globalHeaders_step :: "obj \<Rightarrow> obj list \<Rightarrow> obj \<Rightarrow> string \<Rightarrow> obj" where
  "globalHeaders_step h hs g k =
     (if truthy (reduce_strict_eq (get_prop h k) (map (\<lambda>h'. get_prop h' k) hs))
      then set_prop g k (get_prop h k) else g)"

definition globalHeaders :: "obj list \<Rightarrow> obj" where
  "globalHeaders hs =
     (if length hs \<noteq> 1
      then (case hs of
              [] \<Rightarrow> []
            | h # rest \<Rightarrow> foldl (globalHeaders_step h rest) [] (intersection (map object_keys hs)))
      else [])"


section \<open>The collaborators\<close>

text \<open>
  The key capability, the base64url codec, the serialiser, the algorithm matcher and the
  key factory are used, not defined, by the two files.  A key is the record of what
  the files call on it: \<^verbatim>\<open>kty\<close>, \<^verbatim>\<open>toJSON()\<close>, \<^verbatim>\<open>algorithms(JWK.MODE_SIGN)\<close>,
  \<^verbatim>\<open>sign(alg, bytes, header)\<close> and \<^verbatim>\<open>verify(alg, bytes, signature)\<close>; the last two return
  promises, rejected (\<open>Inl\<close>) or fulfilled with \<^verbatim>\<open>mac\<close> and \<^verbatim>\<open>valid\<close>.  Buffers are byte
  strings.
\<close>

record key =
  key_kty :: string
  key_toJSON :: obj
  key_algorithms :: "string list"
  key_sign :: "jsval \<Rightarrow> string \<Rightarrow> obj \<Rightarrow> error + string"
  key_verify :: "jsval \<Rightarrow> string \<Rightarrow> string \<Rightarrow> error + bool"

record env =
  stringify :: "jsval \<Rightarrow> string"
  b64_encode :: "string \<Rightarrow> string"
  b64_decode :: "jsval \<Rightarrow> error + string"
  alg_match :: "jsval \<Rightarrow> jsval \<Rightarrow> bool"
  asKey :: "jsval \<Rightarrow> key outcome"
  asKey_pkix :: "jsval \<Rightarrow> key outcome"

text \<open>
  \<^verbatim>\<open>Promise.all\<close> over promises that settle: the values in order when all are
  fulfilled, a rejection when one is rejected.  With several rejections \<^verbatim>\<open>Promise.all\<close>
  reports the one that settles first; the list does not record that order, and the
  model reports the one of lowest index.  The statements below say of such an error
  only that it is the error of one of the rejected promises.
\<close>

fun promise_all :: "(error + 'a) list \<Rightarrow> error + 'a list" where
  "promise_all [] = Inr []"
| "promise_all (Inl e # ps) = Inl e"
| "promise_all (Inr x # ps) =
     (case promise_all ps of Inl e \<Rightarrow> Inl e | Inr xs \<Rightarrow> Inr (x # xs))"

section \<open>Signing\<close>

definition reserved :: string where
  "reserved = ''__cleartext_signature''"

text \<open>A resolved signatory, as \<^verbatim>\<open>createSign\<close> freezes it.\<close>

record signatory =
  s_key :: key
  s_header :: obj

text \<open>What one pass of the \<^verbatim>\<open>sigs.map\<close> callback (lines 84 to 100) leaves behind: the
  signer's own header fields, and the request made to the key; \<open>r_doc\<close> is the value
  given to \<^verbatim>\<open>JSON.stringify\<close>, \<open>r_tbs\<close> its bytes.\<close>

record sign_request =
  r_headers :: obj
  r_key :: key
  r_alg :: jsval
  r_doc :: jsval
  r_tbs :: string
  r_header :: obj

text \<open>
  Lines 85 to 90.  The state is the caller's document and the \<^verbatim>\<open>globalHeaders\<close>
  object.  With several signers the reserved field is made to be the \<^verbatim>\<open>globalHeaders\<close>
  object itself, so storing \<^verbatim>\<open>signers\<close> in the field stores it in \<^verbatim>\<open>globalHeaders\<close>
  too; the right-hand side is evaluated before the store.
\<close>

definition sign_snapshot :: "nat \<Rightarrow> obj \<times> obj \<Rightarrow> signatory \<Rightarrow> obj \<times> obj" where
  "sign_snapshot n st s =
     (case st of (data, g) \<Rightarrow>
        if n = 1 then (set_prop data reserved (JObj (s_header s)), g)
        else
          let g' = set_prop g ''signers'' (JArr [JObj (omit (s_header s) (object_keys g))])
          in (set_prop data reserved (JObj g'), g'))"

definition sign_one :: "env \<Rightarrow> nat \<Rightarrow> obj \<times> obj \<Rightarrow> signatory \<Rightarrow> (obj \<times> obj) \<times> sign_request" where
  "sign_one E n st s =
     (let st' = sign_snapshot n st s;
          headers = omit (s_header s) (object_keys (snd st'));
          tbs = stringify E (JObj (fst st'))
      in (st', \<lparr> r_headers = headers, r_key = s_key s,
                 r_alg = get_prop (s_header s) ''alg'', r_doc = JObj (fst st'),
                 r_tbs = tbs, r_header = s_header s \<rparr>))"

fun sign_map :: "env \<Rightarrow> nat \<Rightarrow> obj \<times> obj \<Rightarrow> signatory list \<Rightarrow> (obj \<times> obj) \<times> sign_request list" where
  "sign_map E n st [] = (st, [])"
| "sign_map E n st (s # ss) =
     (case sign_one E n st s of (st', r) \<Rightarrow>
        (case sign_map E n st' ss of (st'', rs) \<Rightarrow> (st'', r # rs)))"

text \<open>Lines 94 to 98: the key signs, and the encoded \<^verbatim>\<open>mac\<close> is stored in the signer's
  own header fields.\<close>

definition sign_complete :: "env \<Rightarrow> sign_request \<Rightarrow> error + obj" where
  "sign_complete E r =
     (case key_sign (r_key r) (r_alg r) (r_tbs r) (r_header r) of
        Inl e \<Rightarrow> Inl e
      | Inr mac \<Rightarrow> Inr (set_prop (r_headers r) ''signature'' (JStr (b64_encode E mac))))"

text \<open>Lines 104 to 111.\<close>

definition sign_assemble :: "obj \<Rightarrow> obj list \<Rightarrow> error + obj" where
  "sign_assemble data sigs =
     (if length sigs = 1 then Inr (set_prop data reserved (JObj (hd sigs)))
      else
        (case assign_prop (get_prop data reserved) ''signers'' (JArr (map JObj sigs)) of
           Inl e \<Rightarrow> Inl e
         | Inr block \<Rightarrow> Inr (set_prop data reserved block)))"

text \<open>
  The whole of \<^verbatim>\<open>sign\<close> (lines 50 to 114).  \<open>sr_result\<close> is the returned promise,
  \<open>sr_finalized\<close> the flag of the signer, \<open>sr_data\<close> the caller's object when the
  promise has settled, and \<open>sr_requests\<close> the calls made to the keys.
\<close>

record sign_run =
  sr_result :: "error + obj"
  sr_finalized :: bool
  sr_data :: jsval
  sr_requests :: "sign_request list"

definition JWSSigner_sign :: "env \<Rightarrow> (error + signatory) list \<Rightarrow> bool \<Rightarrow> jsval \<Rightarrow> sign_run" where
  "JWSSigner_sign E signatories finalized data =
     (if finalized then
        \<lparr> sr_result = Inl (Error ''already final''), sr_finalized = finalized,
          sr_data = data, sr_requests = [] \<rparr>
      else
        (case data of
           JObj d \<Rightarrow>
             (let d1 = set_prop d reserved (JObj []) in
              case promise_all signatories of
                Inl e \<Rightarrow>
                  \<lparr> sr_result = Inl e, sr_finalized = True, sr_data = JObj d1,
                    sr_requests = [] \<rparr>
              | Inr sigs \<Rightarrow>
                  (case sign_map E (length sigs) (d1, globalHeaders (map s_header sigs)) sigs of
                     ((d2, g), reqs) \<Rightarrow>
                       (case promise_all (map (sign_complete E) reqs) of
                          Inl e \<Rightarrow>
                            \<lparr> sr_result = Inl e, sr_finalized = True, sr_data = JObj d2,
                              sr_requests = reqs \<rparr>
                        | Inr done \<Rightarrow>
                            (case sign_assemble d2 done of
                               Inl e \<Rightarrow>
                                 \<lparr> sr_result = Inl e, sr_finalized = True,
                                   sr_data = JObj d2, sr_requests = reqs \<rparr>
                             | Inr d3 \<Rightarrow>
                                 \<lparr> sr_result = Inr d3, sr_finalized = True,
                                   sr_data = JObj d3, sr_requests = reqs \<rparr>))))
         | _ \<Rightarrow>
             \<lparr> sr_result = Inl (Error ''Data to sign must be an object''),
               sr_finalized = finalized, sr_data = data, sr_requests = [] \<rparr>))"


section \<open>Verification\<close>

subsection \<open>The verifier and its options\<close>

text \<open>
  \<^verbatim>\<open>DEFAULT_OPTIONS\<close> (lines 16 to 19) is one object of the module.  The constructor
  (line 61) runs \<^verbatim>\<open>globalOpts = merge(DEFAULT_OPTIONS, globalOpts)\<close>: \<^verbatim>\<open>merge\<close> changes
  its first argument and returns it, so the module's object is updated and the
  instance's \<^verbatim>\<open>globalOpts\<close> is that very object.  The model passes the module's object
  in and out of the constructor, and a verifier reads it when \<^verbatim>\<open>verify\<close> runs.
\<close>

definition DEFAULT_OPTIONS :: obj where
  "DEFAULT_OPTIONS = [(''algorithms'', JStr ''*''), (''allowEmbeddedKey'', JBool False)]"

text \<open>A key store is its \<^verbatim>\<open>get(selector)\<close>; \<open>None\<close> is the falsy result.\<close>

type_synonym keystore = "obj \<Rightarrow> key option"

definition createKeyStore :: keystore where
  "createKeyStore = (\<lambda>sel. None)"

text \<open>The first argument of the constructor: a key (with the store it belongs to), a
  key store, or anything else.\<close>

datatype ks_arg = IsKey key keystore | IsKeyStore keystore | NoKeys

record verifier =
  defaultKey :: "key option"
  keystore :: keystore

definition JWSVerifier :: "obj \<Rightarrow> ks_arg \<Rightarrow> obj option \<Rightarrow> obj \<times> verifier" where
  "JWSVerifier module_opts ks globalOpts =
     (merge_opt module_opts globalOpts,
      (case ks of
         IsKey k store \<Rightarrow> \<lparr> defaultKey = Some k, keystore = store \<rparr>
       | IsKeyStore store \<Rightarrow> \<lparr> defaultKey = None, keystore = store \<rparr>
       | NoKeys \<Rightarrow> \<lparr> defaultKey = None, keystore = createKeyStore \<rparr>))"

definition createVerify :: "obj \<Rightarrow> ks_arg \<Rightarrow> obj option \<Rightarrow> obj \<times> verifier" where
  "createVerify module_opts ks opts = JWSVerifier module_opts ks opts"

text \<open>Line 74: \<^verbatim>\<open>opts = merge({}, globalOpts, opts || {})\<close>.\<close>

definition call_options :: "obj \<Rightarrow> obj option \<Rightarrow> obj" where
  "call_options module_opts opts =
     merge_props (merge_props [] module_opts) (case opts of None \<Rightarrow> [] | Some ob \<Rightarrow> ob)"

subsection \<open>The key of a signer\<close>

text \<open>The record built at lines 98 to 102.  It has no property \<^verbatim>\<open>jwk\<close>.\<close>

record sig_rec =
  sig_signee :: obj
  sig_header :: obj
  sig_signature :: string

definition selector :: "obj \<Rightarrow> obj" where
  "selector header =
     [(''use'', JStr ''sig''), (''alg'', get_prop header ''alg''), (''kid'', get_prop header ''kid'')]"

text \<open>
  \<^verbatim>\<open>getAlgKey\<close> (lines 25 to 38).  The first branch passes \<^verbatim>\<open>sig.jwk\<close>, which is
  \<^verbatim>\<open>undefined\<close>, to \<^verbatim>\<open>JWK.asKey\<close>.  The second passes the buffer of \<^verbatim>\<open>sig.header.x5c[0]\<close>.
  The result is what the returned promise settles to, \<open>None\<close> being a falsy key.
\<close>

fun some_key :: "key outcome \<Rightarrow> key option outcome" where
  "some_key (Throws e) = Throws e"
| "some_key (Rejects e) = Rejects e"
| "some_key (Resolves k) = Resolves (Some k)"

definition getAlgKey :: "env \<Rightarrow> obj \<Rightarrow> sig_rec \<Rightarrow> key option \<Rightarrow> keystore \<Rightarrow> key option outcome" where
  "getAlgKey E opts sig assumedKey store =
     (if truthy (get_prop opts ''allowEmbeddedKey'') \<and> truthy (get_prop (sig_header sig) ''jwk'')
      then some_key (asKey E JUndef)
      else if truthy (get_prop opts ''allowEmbeddedKey'') \<and> truthy (get_prop (sig_header sig) ''x5c'')
      then (case elem0 (get_prop (sig_header sig) ''x5c'') of
              Inl e \<Rightarrow> Throws e
            | Inr c \<Rightarrow> some_key (asKey_pkix E c))
      else Resolves (case assumedKey of
                       Some k \<Rightarrow> Some k
                     | None \<Rightarrow> store (selector (sig_header sig))))"


subsection \<open>One signer\<close>

text \<open>
  The part of the \<^verbatim>\<open>sigs.map\<close> callback that runs at once (lines 91 to 103).  \<open>block\<close>
  is the reserved field of the scratch copy \<^verbatim>\<open>data\<close>.  Decoding the signature can
  throw, which leaves \<^verbatim>\<open>verify\<close>.  For a disallowed algorithm the callback returns
  \<^verbatim>\<open>Promise.reject(...)\<close> itself: that promise has no \<^verbatim>\<open>catch\<close> attached.  Otherwise the
  callback asks for the key and chains the rest on the answer.
\<close>

datatype pending =
    AlgRejected error
  | Chained sig_rec "error + key option"

definition signee_of :: "jsval \<Rightarrow> obj" where
  "signee_of sig = omit (own_props (if truthy sig then sig else JObj [])) [''valid'', ''message'']"

definition header_of :: "jsval \<Rightarrow> jsval \<Rightarrow> obj" where
  "header_of block sig =
     merge_props (merge_props [] (signee_of sig)) (omit (own_props block) [''signers''])"

definition verify_prepare ::
  "env \<Rightarrow> obj \<Rightarrow> key option \<Rightarrow> keystore \<Rightarrow> jsval \<Rightarrow> jsval \<Rightarrow> error + pending" where
  "verify_prepare E opts assumedKey store block sig =
     (let signee = signee_of sig;
          header = header_of block sig
      in case b64_decode E (get_prop signee ''signature'') of
           Inl e \<Rightarrow> Inl e
         | Inr signature \<Rightarrow>
             if \<not> alg_match E (get_prop opts ''algorithms'') (get_prop header ''alg'')
             then Inr (AlgRejected
                         (Error (''Algorithm not allowed: '' @ to_string (get_prop header ''alg''))))
             else
               (let sg = \<lparr> sig_signee = delete_prop signee ''signature'', sig_header = header,
                           sig_signature = signature \<rparr>
                in case getAlgKey E opts sg assumedKey store of
                     Throws e \<Rightarrow> Inl e
                   | Rejects e \<Rightarrow> Inr (Chained sg (Inl e))
                   | Resolves k \<Rightarrow> Inr (Chained sg (Inr k))))"

text \<open>The synchronous \<^verbatim>\<open>map\<close>: the first callback that throws ends it.\<close>

fun verify_map ::
  "env \<Rightarrow> obj \<Rightarrow> key option \<Rightarrow> keystore \<Rightarrow> jsval \<Rightarrow> jsval list \<Rightarrow> error + pending list" where
  "verify_map E opts assumedKey store block [] = Inr []"
| "verify_map E opts assumedKey store block (sig # sigs) =
     (case verify_prepare E opts assumedKey store block sig of
        Inl e \<Rightarrow> Inl e
      | Inr p \<Rightarrow>
          (case verify_map E opts assumedKey store block sigs of
             Inl e \<Rightarrow> Inl e
           | Inr ps \<Rightarrow> Inr (p # ps)))"

text \<open>
  The callbacks that returned before \<^verbatim>\<open>map\<close> ended: all of them, or those before the one
  that threw.  Each has already asked for its key and chained its handlers on the
  answer, so its chain runs to the end even when a later callback makes \<^verbatim>\<open>verify\<close>
  throw.
\<close>

fun verify_started ::
  "env \<Rightarrow> obj \<Rightarrow> key option \<Rightarrow> keystore \<Rightarrow> jsval \<Rightarrow> jsval list \<Rightarrow> pending list" where
  "verify_started E opts assumedKey store block [] = []"
| "verify_started E opts assumedKey store block (sig # sigs) =
     (case verify_prepare E opts assumedKey store block sig of
        Inl e \<Rightarrow> []
      | Inr p \<Rightarrow> p # verify_started E opts assumedKey store block sigs)"

text \<open>
  Lines 110 to 114: the scratch copy \<^verbatim>\<open>data\<close>, shared by all signers of the call, is
  rewritten in place to show this signer alone.  \<open>n\<close> is \<^verbatim>\<open>sigs.length\<close>.
\<close>

definition verify_snapshot :: "nat \<Rightarrow> obj \<Rightarrow> obj \<Rightarrow> error + obj" where
  "verify_snapshot n data signee =
     (if n = 1 then Inr (set_prop data reserved (JObj signee))
      else
        (case assign_prop (get_prop data reserved) ''signers'' (JArr [JObj signee]) of
           Inl e \<Rightarrow> Inl e
         | Inr block \<Rightarrow> Inr (set_prop data reserved block)))"

text \<open>The call made to the key (lines 115 and 116): \<open>q_doc\<close> is the value given to
  \<^verbatim>\<open>JSON.stringify\<close>, \<open>q_tbv\<close> its bytes.\<close>

record verify_request =
  q_key :: key
  q_alg :: jsval
  q_doc :: jsval
  q_tbv :: string
  q_signature :: string

text \<open>How the chain of one signer ends before the write-back: with the \<^verbatim>\<open>result\<close> of
  the key (its \<^verbatim>\<open>valid\<close>), with an error on its way to \<^verbatim>\<open>catch\<close>, or, for the promise
  without a \<^verbatim>\<open>catch\<close>, rejected.\<close>

datatype settled = Uncaught error | Failed error | Verified bool

text \<open>Lines 103 to 116 for one signer: the new scratch copy, the end of the chain and
  the request made to the key, if any.\<close>

definition verify_chain ::
  "env \<Rightarrow> nat \<Rightarrow> obj \<Rightarrow> pending \<Rightarrow> obj \<times> settled \<times> verify_request list" where
  "verify_chain E n data p =
     (case p of
        AlgRejected e \<Rightarrow> (data, Uncaught e, [])
      | Chained sg (Inl e) \<Rightarrow> (data, Failed e, [])
      | Chained sg (Inr None) \<Rightarrow> (data, Failed (Error ''Key does not match''), [])
      | Chained sg (Inr (Some k)) \<Rightarrow>
          (case verify_snapshot n data (sig_signee sg) of
             Inl e \<Rightarrow> (data, Failed e, [])
           | Inr data' \<Rightarrow>
               (let alg = get_prop (sig_header sg) ''alg'';
                    tbv = stringify E (JObj data');
                    q = \<lparr> q_key = k, q_alg = alg, q_doc = JObj data', q_tbv = tbv,
                          q_signature = sig_signature sg \<rparr>
                in case key_verify k alg tbv (sig_signature sg) of
                     Inl e \<Rightarrow> (data', Failed e, [q])
                   | Inr v \<Rightarrow> (data', Verified v, [q]))))"

text \<open>The chains of all signers, the scratch copy going from one to the next.\<close>

fun verify_chains ::
  "env \<Rightarrow> nat \<Rightarrow> obj \<Rightarrow> pending list \<Rightarrow> obj \<times> settled list \<times> verify_request list" where
  "verify_chains E n data [] = (data, [], [])"
| "verify_chains E n data (p # ps) =
     (case verify_chain E n data p of (data', r, q) \<Rightarrow>
        (case verify_chains E n data' ps of (data'', rs, qs) \<Rightarrow> (data'', r # rs, q @ qs)))"

subsection \<open>The write-back\<close>

text \<open>\<^verbatim>\<open>input.__cleartext_signature.signers[index].k = v\<close>, for each pair of \<open>kvs\<close> in turn;
  \<open>Inl\<close> when a step of the path throws.\<close>

fun assign_all :: "jsval \<Rightarrow> (string \<times> jsval) list \<Rightarrow> error + jsval" where
  "assign_all x [] = Inr x"
| "assign_all x ((k, v) # kvs) =
     (case assign_prop x k v of Inl e \<Rightarrow> Inl e | Inr x' \<Rightarrow> assign_all x' kvs)"

definition write_signer :: "obj \<Rightarrow> nat \<Rightarrow> (string \<times> jsval) list \<Rightarrow> error + obj" where
  "write_signer input index kvs =
     (case get_prop input reserved of
        JObj block \<Rightarrow>
          (case get_prop block ''signers'' of
             JArr xs \<Rightarrow>
               (case assign_all (if index < length xs then xs ! index else JUndef) kvs of
                  Inl e \<Rightarrow> Inl e
                | Inr x \<Rightarrow>
                    Inr (set_prop input reserved
                           (JObj (set_prop block ''signers'' (JArr (xs[index := x]))))))
           | _ \<Rightarrow> Inl (TypeError ''Cannot set property of undefined''))
      | _ \<Rightarrow> Inl (TypeError ''Cannot read property signers''))"

text \<open>\<^verbatim>\<open>input.__cleartext_signature.k = v\<close>, for each pair in turn.\<close>

definition write_block :: "obj \<Rightarrow> (string \<times> jsval) list \<Rightarrow> error + obj" where
  "write_block input kvs =
     (case assign_all (get_prop input reserved) kvs of
        Inl e \<Rightarrow> Inl e
      | Inr block \<Rightarrow> Inr (set_prop input reserved block))"

text \<open>The handler of \<^verbatim>\<open>catch\<close>, lines 122 to 131.\<close>

definition on_error :: "nat \<Rightarrow> nat \<Rightarrow> obj \<Rightarrow> error \<Rightarrow> error + obj" where
  "on_error n index input e =
     (if n \<noteq> 1
      then write_signer input index [(''valid'', JBool False), (''message'', JStr (message e))]
      else write_block input [(''valid'', JBool False), (''message'', JStr (message e))])"

text \<open>
  Lines 117 to 131 for one signer: \<open>Inl\<close> when the promise of the signer is rejected,
  else the caller's document with what the signer wrote.  A throw in the handler of
  \<^verbatim>\<open>then\<close> goes to \<^verbatim>\<open>catch\<close>; a throw in \<^verbatim>\<open>catch\<close> rejects the promise.
\<close>

definition write_back :: "nat \<Rightarrow> nat \<Rightarrow> obj \<Rightarrow> settled \<Rightarrow> error + obj" where
  "write_back n index input r =
     (case r of
        Uncaught e \<Rightarrow> Inl e
      | Failed e \<Rightarrow> on_error n index input e
      | Verified v \<Rightarrow>
          (if n \<noteq> 1
           then (case write_signer input index [(''valid'', JBool v)] of
                   Inl e \<Rightarrow> on_error n index input e
                 | Inr input' \<Rightarrow> Inr input')
           else Inr input))"

text \<open>All signers write to the caller's document; the rejections are collected.\<close>

fun write_backs :: "nat \<Rightarrow> nat \<Rightarrow> obj \<Rightarrow> settled list \<Rightarrow> obj \<times> (error + unit) list" where
  "write_backs n index input [] = (input, [])"
| "write_backs n index input (r # rs) =
     (case write_back n index input r of
        Inl e \<Rightarrow> (case write_backs n (Suc index) input rs of (i, os) \<Rightarrow> (i, Inl e # os))
      | Inr input' \<Rightarrow>
          (case write_backs n (Suc index) input' rs of (i, os) \<Rightarrow> (i, Inr () # os)))"

text \<open>\<^verbatim>\<open>Promise.all(sigs)\<close> at line 134: a promise rejected from the start (the disallowed
  algorithm) is seen before any chain that fails later.\<close>

fun first_uncaught :: "settled list \<Rightarrow> error option" where
  "first_uncaught [] = None"
| "first_uncaught (Uncaught e # rs) = Some e"
| "first_uncaught (_ # rs) = first_uncaught rs"

subsection \<open>The whole of verify\<close>

text \<open>
  \<^verbatim>\<open>verify\<close> (lines 73 to 137).  \<open>vr_result\<close> is what the call gives: it throws, or
  returns a promise that is rejected or resolves with the caller's document.
  \<open>vr_requests\<close> are the calls made to the keys, and \<open>vr_input\<close> is the caller's value
  when every chain has settled.  \<open>module_opts\<close> is the object the verifier holds as
  \<^verbatim>\<open>globalOpts\<close>.
\<close>

record verify_run =
  vr_result :: "obj outcome"
  vr_requests :: "verify_request list"
  vr_input :: jsval

text \<open>
  Lines 90 to 136.  The chains of the callbacks that returned run and write to the
  caller's document whatever the call gives: when a callback throws, \<^verbatim>\<open>verify\<close> throws
  and \<^verbatim>\<open>sigs\<close> stays the array of the records, which has the same length.
\<close>

definition verify_signers ::
  "env \<Rightarrow> obj \<Rightarrow> verifier \<Rightarrow> obj \<Rightarrow> jsval \<Rightarrow> jsval list \<Rightarrow> verify_run" where
  "verify_signers E opts V input block sigs =
     (case verify_chains E (length sigs) input
             (verify_started E opts (defaultKey V) (keystore V) block sigs) of
        (data, rs, qs) \<Rightarrow>
          (case write_backs (length sigs) 0 input rs of
             (input', os) \<Rightarrow>
               \<lparr> vr_result =
                   (case verify_map E opts (defaultKey V) (keystore V) block sigs of
                      Inl e \<Rightarrow> Throws e
                    | Inr ps \<Rightarrow>
                        (case first_uncaught rs of
                           Some e \<Rightarrow> Rejects e
                         | None \<Rightarrow>
                             (case promise_all os of
                                Inl e \<Rightarrow> Rejects e
                              | Inr _ \<Rightarrow> Resolves input'))),
                 vr_requests = qs,
                 vr_input = JObj input' \<rparr>))"

text \<open>Line 85, \<^verbatim>\<open>data.__cleartext_signature.signers || [data.__cleartext_signature]\<close>, for
  the copy \<^verbatim>\<open>data\<close> of the input; the result must have \<^verbatim>\<open>map\<close>, as an array has.\<close>

definition signer_records :: "obj \<Rightarrow> error + jsval list" where
  "signer_records data =
     (case member (get_prop data reserved) ''signers'' of
        Inl e \<Rightarrow> Inl e
      | Inr signers \<Rightarrow>
          (case (if truthy signers then signers else JArr [get_prop data reserved]) of
             JArr sigs \<Rightarrow> Inr sigs
           | _ \<Rightarrow> Inl (TypeError ''sigs.map is not a function'')))"

definition JWSVerifier_verify ::
  "env \<Rightarrow> obj \<Rightarrow> verifier \<Rightarrow> jsval \<Rightarrow> obj option \<Rightarrow> verify_run" where
  "JWSVerifier_verify E module_opts V input opts =
     (let opts' = call_options module_opts opts in
      case input of
        JStr text \<Rightarrow>
          \<lparr> vr_result = Throws (ReferenceError ''intput is not defined''), vr_requests = [],
            vr_input = input \<rparr>
      | JObj inp \<Rightarrow>
          (case signer_records inp of
             Inl e \<Rightarrow> \<lparr> vr_result = Throws e, vr_requests = [], vr_input = input \<rparr>
           | Inr sigs \<Rightarrow> verify_signers E opts' V inp (get_prop inp reserved) sigs)
      | _ \<Rightarrow>
          \<lparr> vr_result = Throws (Error ''Input has to be a JOSN object.''),
            vr_requests = [], vr_input = input \<rparr>)"


section \<open>Resolving the signatories\<close>

text \<open>
  The callback of \<^verbatim>\<open>signList.map\<close> in \<^verbatim>\<open>createSign\<close> (lines 170 to 241).  An entry of the
  list is falsy, or has a property \<^verbatim>\<open>kty\<close> (a key), or is a descriptor with \<^verbatim>\<open>key\<close>,
  \<^verbatim>\<open>header\<close> and \<^verbatim>\<open>reference\<close>.  A reference is absent, a boolean or a string.
  \<open>allFields\<close> is \<^verbatim>\<open>options.fields || {}\<close>.
\<close>

datatype reference = RefUndefined | RefBool bool | RefString string

datatype signatory_arg =
    NoSignatory
  | KeyArg jsval
  | Descriptor jsval "obj option" reference

text \<open>Lines 210 to 221: the name of the key reference to embed, \<open>None\<close> for
  \<^verbatim>\<open>null\<close>.\<close>

definition key_reference :: "obj \<Rightarrow> reference \<Rightarrow> string option" where
  "key_reference header ref =
     (case ref of
        RefUndefined \<Rightarrow>
          (if (\<exists>k \<in> set [''kid'', ''jku'', ''x5c'', ''x5t'', ''x5u'']. has_prop header k)
           then None else Some ''kid'')
      | RefBool b \<Rightarrow> (if b then Some ''kid'' else None)
      | RefString r \<Rightarrow> Some r)"

text \<open>Lines 196 to 238, for the key \<open>k\<close> that \<^verbatim>\<open>JWK.asKey\<close> resolved.\<close>

definition resolve_signatory :: "obj \<Rightarrow> key \<Rightarrow> obj option \<Rightarrow> reference \<Rightarrow> error + signatory" where
  "resolve_signatory allFields k hdr ref =
     (let header0 = merge_props (merge_props [] allFields) (case hdr of None \<Rightarrow> [] | Some h \<Rightarrow> h);
          header = (if \<not> truthy (get_prop header0 ''alg'')
                    then set_prop header0 ''alg''
                           (JStr (case key_algorithms k of [] \<Rightarrow> [] | a # _ \<Rightarrow> a))
                    else header0)
      in case key_reference header ref of
           None \<Rightarrow> Inr \<lparr> s_key = k, s_header = header \<rparr>
         | Some r \<Rightarrow>
             if r = [] then Inr \<lparr> s_key = k, s_header = header \<rparr>
             else if r = ''jwk'' then
               (if key_kty k = ''oct'' then Inl (Error ''cannot embed key'')
                else Inr \<lparr> s_key = k, s_header = set_prop header ''jwk'' (JObj (key_toJSON k)) \<rparr>)
             else if has_prop (key_toJSON k) r
             then Inr \<lparr> s_key = k, s_header = set_prop header r (get_prop (key_toJSON k) r) \<rparr>
             else Inr \<lparr> s_key = k, s_header = header \<rparr>)"

text \<open>One entry of the list: \<open>Inl\<close> when \<^verbatim>\<open>JWK.asKey\<close> throws, else the promise of the
  signatory.\<close>

definition createSign_entry :: "env \<Rightarrow> obj \<Rightarrow> nat \<Rightarrow> signatory_arg \<Rightarrow> error + (error + signatory)" where
  "createSign_entry E allFields idx s =
     (case s of
        NoSignatory \<Rightarrow> Inr (Inl (Error (''missing key for signatory '' @ nat_str idx)))
      | KeyArg j \<Rightarrow>
          (case asKey E j of
             Throws e \<Rightarrow> Inl e
           | Rejects e \<Rightarrow> Inr (Inl e)
           | Resolves k \<Rightarrow> Inr (resolve_signatory allFields k None RefUndefined))
      | Descriptor j hdr ref \<Rightarrow>
          (case asKey E j of
             Throws e \<Rightarrow> Inl e
           | Rejects e \<Rightarrow> Inr (Inl e)
           | Resolves k \<Rightarrow> Inr (resolve_signatory allFields k hdr ref)))"

fun createSign_from :: "env \<Rightarrow> obj \<Rightarrow> nat \<Rightarrow> signatory_arg list \<Rightarrow> error + (error + signatory) list" where
  "createSign_from E allFields idx [] = Inr []"
| "createSign_from E allFields idx (s # ss) =
     (case createSign_entry E allFields idx s of
        Inl e \<Rightarrow> Inl e
      | Inr p \<Rightarrow>
          (case createSign_from E allFields (Suc idx) ss of
             Inl e \<Rightarrow> Inl e
           | Inr ps \<Rightarrow> Inr (p # ps)))"

text \<open>\<^verbatim>\<open>createSign\<close> after its arguments are sorted out (lines 170 to 243): the
  signatories that the new signer holds, or the error thrown.\<close>

definition createSign :: "env \<Rightarrow> obj \<Rightarrow> signatory_arg list \<Rightarrow> error + (error + signatory) list" where
  "createSign E allFields signList = createSign_from E allFields 0 signList"

section \<open>Collaborators to run the model with\<close>

text \<open>
  A serialiser that writes a value as JSON text, leaving out properties that are
  \<^verbatim>\<open>undefined\<close> (strings are written without escapes); a codec that is the identity on
  strings; the matcher of the wildcard and of a single name; and keys whose signature
  of some bytes is the key's name followed by the bytes.
\<close>

fun plain_stringify :: "jsval \<Rightarrow> string" where
  "plain_stringify JUndef = ''null''"
| "plain_stringify JNull = ''null''"
| "plain_stringify (JBool b) = (if b then ''true'' else ''false'')"
| "plain_stringify (JNum n) = int_str n"
| "plain_stringify (JStr s) = CHR 0x22 # s @ [CHR 0x22]"
| "plain_stringify (JArr xs) = ''['' @ join '','' (map plain_stringify xs) @ '']''"
| "plain_stringify (JObj ob) =
     ''{'' @ join '',''
       (map (\<lambda>p. CHR 0x22 # fst p @ [CHR 0x22] @ '':'' @ plain_stringify (snd p))
          (filter (\<lambda>p. snd p \<noteq> JUndef) ob)) @ ''}''"

definition plain_decode :: "jsval \<Rightarrow> error + string" where
  "plain_decode v =
     (case v of JStr s \<Rightarrow> Inr s | _ \<Rightarrow> Inl (TypeError ''Cannot read property replace''))"

definition plain_match :: "jsval \<Rightarrow> jsval \<Rightarrow> bool" where
  "plain_match spec alg = (spec = JStr ''*'' \<or> spec = alg)"

definition name_key :: "string \<Rightarrow> string \<Rightarrow> key" where
  "name_key kty name =
     \<lparr> key_kty = kty,
       key_toJSON = [(''kty'', JStr kty), (''kid'', JStr name)],
       key_algorithms = [''HS256''],
       key_sign = (\<lambda>alg bytes header. Inr (name @ bytes)),
       key_verify = (\<lambda>alg bytes signature. Inr (signature = name @ bytes)) \<rparr>"

definition no_key :: "jsval \<Rightarrow> key outcome" where
  "no_key j = Rejects (Error ''unsupported key type'')"

definition plain_asKey :: "jsval \<Rightarrow> key outcome" where
  "plain_asKey j =
     (case j of
        JObj ob \<Rightarrow>
          (case (get_prop ob ''kty'', get_prop ob ''kid'') of
             (JStr kty, JStr name) \<Rightarrow> Resolves (name_key kty name)
           | _ \<Rightarrow> Rejects (Error ''unsupported key type''))
      | _ \<Rightarrow> Rejects (Error ''unsupported key type''))"

definition plain_env :: env where
  "plain_env =
     \<lparr> stringify = plain_stringify, b64_encode = (\<lambda>s. s), b64_decode = plain_decode,
       alg_match = plain_match, asKey = plain_asKey, asKey_pkix = no_key \<rparr>"

text \<open>A key store that knows the keys by their \<^verbatim>\<open>kid\<close>.\<close>

definition name_store :: "string list \<Rightarrow> keystore" where
  "name_store names sel =
     (case get_prop sel ''kid'' of
        JStr name \<Rightarrow> (if name \<in> set names then Some (name_key ''oct'' name) else None)
      | _ \<Rightarrow> None)"


subsection \<open>Documents, signatories and verifiers to run the model on\<close>

definition header_X :: obj where
  "header_X = [(''alg'', JStr ''HS256''), (''kid'', JStr ''X'')]"

definition signer_A :: signatory where
  "signer_A =
     \<lparr> s_key = name_key ''oct'' ''A'',
       s_header = [(''alg'', JStr ''HS256''), (''kid'', JStr ''A'')] \<rparr>"

definition signer_B :: signatory where
  "signer_B =
     \<lparr> s_key = name_key ''oct'' ''B'',
       s_header = [(''alg'', JStr ''HS256''), (''kid'', JStr ''B'')] \<rparr>"

definition document_1 :: jsval where
  "document_1 = JObj [(''a'', JNum 1)]"

definition verifier_AB :: verifier where
  "verifier_AB = snd (createVerify DEFAULT_OPTIONS (IsKeyStore (name_store [''A'', ''B''])) None)"

definition signer_F :: signatory where
  "signer_F =
     \<lparr> s_key = (name_key ''oct'' ''F'') \<lparr> key_sign := (\<lambda>alg bytes header. Inl (Error ''sign failed'')) \<rparr>,
       s_header = [(''alg'', JStr ''HS256''), (''kid'', JStr ''F'')] \<rparr>"

text \<open>The document that \<^verbatim>\<open>sign\<close> makes of \<open>document_1\<close> for the signer \<open>A\<close> alone.\<close>

definition signed_by_A :: obj where
  "signed_by_A =
     [(''a'', JNum 1),
      (reserved, JObj
         [(''alg'', JStr ''HS256''), (''kid'', JStr ''A''),
          (''signature'', JStr (''A'' @ plain_stringify (JObj
             [(''a'', JNum 1),
              (reserved, JObj [(''alg'', JStr ''HS256''), (''kid'', JStr ''A'')])])))])]"

text \<open>A document in the form for several signers; the signatures are not genuine.\<close>

definition two_signers :: obj where
  "two_signers =
     [(''a'', JNum 1),
      (reserved, JObj
         [(''alg'', JStr ''HS256''),
          (''signers'', JArr
             [JObj [(''kid'', JStr ''A''), (''signature'', JStr ''sa'')],
              JObj [(''kid'', JStr ''B''), (''signature'', JStr ''sb'')]])])]"


text \<open>A single signer with the algorithm \<^verbatim>\<open>RS256\<close>, and one whose key nobody knows.\<close>

definition signed_RS256 :: obj where
  "signed_RS256 =
     [(''a'', JNum 1),
      (reserved, JObj
         [(''alg'', JStr ''RS256''), (''kid'', JStr ''A''), (''signature'', JStr ''sa'')])]"

definition signed_by_Z :: obj where
  "signed_by_Z =
     [(''a'', JNum 1),
      (reserved, JObj
         [(''alg'', JStr ''HS256''), (''kid'', JStr ''Z''), (''signature'', JStr ''sz'')])]"

text \<open>A signer record whose header embeds a public key.\<close>

definition embedded_jwk :: jsval where
  "embedded_jwk = JObj [(''kty'', JStr ''RSA''), (''kid'', JStr ''A'')]"

definition sig_with_jwk :: sig_rec where
  "sig_with_jwk =
     \<lparr> sig_signee = [(''alg'', JStr ''RS256''), (''jwk'', embedded_jwk)],
       sig_header = [(''alg'', JStr ''RS256''), (''jwk'', embedded_jwk), (''signature'', JStr ''sa'')],
       sig_signature = ''sa'' \<rparr>"

subsection \<open>Notions used in the statements\<close>

text \<open>The fields of a document outside the reserved field.\<close>

definition content :: "obj \<Rightarrow> obj" where
  "content d = omit d [reserved]"


text \<open>The scratch copy of a \<^verbatim>\<open>verify\<close> call after the snapshots of some signers have
  been taken, in any order; a snapshot that throws leaves the copy as it is.\<close>

definition snapshots_applied :: "nat \<Rightarrow> obj \<Rightarrow> obj list \<Rightarrow> obj" where
  "snapshots_applied n data signees =
     foldl (\<lambda>d s. case verify_snapshot n d s of Inl e \<Rightarrow> d | Inr d' \<Rightarrow> d') data signees"

section \<open>Facts about objects\<close>

lemma get_prop_set_prop_same [simp]: "get_prop (set_prop ob k v) k = v"
  by (induction ob) (auto simp: get_prop_def)

lemma get_prop_set_prop_other [simp]:
  "k' \<noteq> k \<Longrightarrow> get_prop (set_prop ob k v) k' = get_prop ob k'"
  by (induction ob) (auto simp: get_prop_def)

lemma set_prop_twice [simp]: "set_prop (set_prop ob k v) k w = set_prop ob k w"
  by (induction ob) auto

lemma map_fst_set_prop:
  "map fst (set_prop ob k v) = (if k \<in> set (map fst ob) then map fst ob else map fst ob @ [k])"
proof (induction ob)
  case Nil
  show ?case by simp
next
  case (Cons p ob)
  obtain k' v' where p: "p = (k', v')" by (cases p)
  show ?case using Cons.IH by (simp add: p)
qed

lemma has_prop_set_prop [simp]: "has_prop (set_prop ob k v) k' = (k' = k \<or> has_prop ob k')"
  unfolding has_prop_def map_fst_set_prop by auto

lemma object_keys_set_prop:
  "object_keys (set_prop ob k v) =
     (if has_prop ob k then object_keys ob else object_keys ob @ [k])"
  unfolding has_prop_def object_keys_def map_fst_set_prop by simp

lemma omit_cong_set: "set ks = set ks' \<Longrightarrow> omit ob ks = omit ob ks'"
  by (simp add: omit_def)

lemma has_prop_omit [simp]: "has_prop (omit ob ks) k = (has_prop ob k \<and> k \<notin> set ks)"
  by (auto simp: has_prop_def omit_def)

lemma has_prop_delete [simp]: "has_prop (delete_prop ob k) k' = (has_prop ob k' \<and> k' \<noteq> k)"
  by (auto simp: has_prop_def delete_prop_def)

lemma content_set_prop_reserved [simp]: "content (set_prop d reserved v) = content d"
  by (induction d) (auto simp: content_def omit_def)

lemma assign_prop_twice:
  "assign_prop b k v = Inr b' \<Longrightarrow> assign_prop b' k w = assign_prop b k w"
  by (cases b) auto

section \<open>Facts about promises\<close>


lemma promise_all_Inl_mem: "promise_all ps = Inl e \<Longrightarrow> Inl e \<in> set ps"
  by (induction ps rule: promise_all.induct) (auto split: sum.splits)

lemma promise_all_fails: "Inl e \<in> set ps \<Longrightarrow> \<exists>e'. promise_all ps = Inl e'"
  by (induction ps rule: promise_all.induct) (auto split: sum.splits)

section \<open>The state of the signing loop\<close>

lemma sign_snapshot_fst:
  "\<exists>b. fst (sign_snapshot n (data, g) s) = set_prop data reserved (JObj b)"
  by (auto simp: sign_snapshot_def Let_def)

lemma sign_snapshot_snd:
  "snd (sign_snapshot n (data, g) s) =
     (if n = 1 then g
      else set_prop g ''signers'' (JArr [JObj (omit (s_header s) (object_keys g))]))"
  by (auto simp: sign_snapshot_def Let_def)

text \<open>After at least one signer the caller's document is the one the loop started with,
  but for the reserved field, and the global headers are the ones it started with, but
  for \<^verbatim>\<open>signers\<close>.\<close>

lemma sign_map_state:
  "\<exists>b X. fst (sign_map E n (data, g) (s # ss)) =
     (set_prop data reserved (JObj b), if n = 1 then g else set_prop g ''signers'' X)"
proof (induction ss arbitrary: data g s)
  case Nil
  show ?case
    by (cases "n = 1") (auto simp: sign_one_def sign_snapshot_def Let_def)
next
  case (Cons s' ss)
  obtain d1 g1 where st1: "sign_snapshot n (data, g) s = (d1, g1)"
    by (cases "sign_snapshot n (data, g) s")
  obtain b1 where d1: "d1 = set_prop data reserved (JObj b1)"
    using sign_snapshot_fst [of n data g s] st1 by auto
  have g1: "g1 = (if n = 1 then g
                  else set_prop g ''signers'' (JArr [JObj (omit (s_header s) (object_keys g))]))"
    using sign_snapshot_snd [of n data g s] st1 by simp
  obtain b X where fin: "fst (sign_map E n (d1, g1) (s' # ss)) =
     (set_prop d1 reserved (JObj b), if n = 1 then g1 else set_prop g1 ''signers'' X)"
    using Cons.IH [of d1 g1 s'] by blast
  have "fst (sign_map E n (data, g) (s # s' # ss)) = fst (sign_map E n (d1, g1) (s' # ss))"
    by (simp add: sign_one_def Let_def st1 split: prod.splits)
  then have "fst (sign_map E n (data, g) (s # s' # ss)) =
     (set_prop d1 reserved (JObj b), if n = 1 then g1 else set_prop g1 ''signers'' X)"
    by (simp only: fin)
  also have "\<dots> =
     (set_prop data reserved (JObj b), if n = 1 then g else set_prop g ''signers'' X)"
    by (simp add: d1 g1)
  finally show ?case by blast
qed

lemma sign_one_related:
  "snd (sign_one E n (set_prop data reserved b, if n = 1 then g else set_prop g ''signers'' X) s) =
   snd (sign_one E n (set_prop data reserved b', if n = 1 then g else set_prop g ''signers'' Y) s)"
  by (cases "n = 1")
     (auto simp: sign_one_def sign_snapshot_def Let_def object_keys_set_prop
           intro: omit_cong_set)

lemma sign_one_after_any_signers:
  assumes "before \<noteq> []" and "before' \<noteq> []"
  shows "snd (sign_one E n (fst (sign_map E n (data, g) before)) s) =
         snd (sign_one E n (fst (sign_map E n (data, g) before')) s)"
proof -
  obtain a as where b: "before = a # as" using assms(1) by (cases before) auto
  obtain a' as' where b': "before' = a' # as'" using assms(2) by (cases before') auto
  obtain b1 X where 1: "fst (sign_map E n (data, g) before) =
     (set_prop data reserved (JObj b1), if n = 1 then g else set_prop g ''signers'' X)"
    unfolding b using sign_map_state by blast
  obtain b2 Y where 2: "fst (sign_map E n (data, g) before') =
     (set_prop data reserved (JObj b2), if n = 1 then g else set_prop g ''signers'' Y)"
    unfolding b' using sign_map_state by blast
  show ?thesis unfolding 1 2 by (rule sign_one_related)
qed

lemma sign_map_Cons_fst:
  "fst (sign_map E n st (x # xs)) = fst (sign_map E n (fst (sign_one E n st x)) xs)"
  by (simp split: prod.splits)

lemma sign_map_append:
  "fst (sign_map E n st (xs @ ys)) = fst (sign_map E n (fst (sign_map E n st xs)) ys)"
proof (induction xs arbitrary: st)
  case Nil
  show ?case by simp
next
  case (Cons x xs)
  have "fst (sign_map E n st ((x # xs) @ ys)) =
        fst (sign_map E n (fst (sign_one E n st x)) (xs @ ys))"
    using sign_map_Cons_fst [of E n st x "xs @ ys"] by simp
  also have "\<dots> = fst (sign_map E n (fst (sign_map E n (fst (sign_one E n st x)) xs)) ys)"
    by (rule Cons.IH)
  also have "\<dots> = fst (sign_map E n (fst (sign_map E n st (x # xs))) ys)"
    by (simp only: sign_map_Cons_fst)
  finally show ?case .
qed

text \<open>With several signers the loop leaves the global headers and the entry of the
  last signer in the reserved field.\<close>

lemma sign_map_last_block:
  assumes "n \<noteq> 1" and "2 \<le> length ss"
  shows "fst (fst (sign_map E n (data, g) ss)) =
         set_prop data reserved
           (JObj (set_prop g ''signers''
                    (JArr [JObj (omit (s_header (last ss)) (''signers'' # object_keys g))])))"
proof -
  have "ss \<noteq> []" using assms(2) by auto
  then obtain pre l where split: "ss = pre @ [l]"
    by (metis append_butlast_last_id)
  have "pre \<noteq> []" using assms(2) split by auto
  then obtain a as where pre: "pre = a # as" by (cases pre) auto
  have l: "last ss = l" by (simp add: split)
  obtain b X where st: "fst (sign_map E n (data, g) pre) =
     (set_prop data reserved (JObj b), set_prop g ''signers'' X)"
    using sign_map_state [of E n data g a as] assms(1) pre by auto
  have keys: "set (object_keys (set_prop g ''signers'' X)) = set (''signers'' # object_keys g)"
    unfolding object_keys_def map_fst_set_prop by auto
  have "fst (sign_map E n (data, g) (pre @ [l])) =
        fst (sign_map E n (fst (sign_map E n (data, g) pre)) [l])"
    by (rule sign_map_append)
  then have "fst (sign_map E n (data, g) ss) =
        fst (sign_map E n (set_prop data reserved (JObj b), set_prop g ''signers'' X) [l])"
    by (simp only: split st)
  also have "\<dots> = sign_snapshot n (set_prop data reserved (JObj b), set_prop g ''signers'' X) l"
    by (simp add: sign_one_def Let_def)
  finally show ?thesis
    using assms(1) omit_cong_set [OF keys]
    by (simp add: sign_snapshot_def Let_def l)
qed



lemma sign_map_length: "sign_map E n st ss = (st', rs) \<Longrightarrow> length rs = length ss"
  by (induction ss arbitrary: st st' rs) (auto split: prod.splits)

lemma sign_complete_Inl:
  "sign_complete E r = Inl e \<longleftrightarrow> key_sign (r_key r) (r_alg r) (r_tbs r) (r_header r) = Inl e"
  by (auto simp: sign_complete_def split: sum.splits)





lemma sign_rejected_signatory:
  assumes "Inl e \<in> set signatories"
  shows "sr_requests (JWSSigner_sign E signatories fin data) = [] \<and>
         (\<exists>e'. sr_result (JWSSigner_sign E signatories fin data) = Inl e')"
proof -
  obtain e' where e': "promise_all signatories = Inl e'"
    using promise_all_fails [OF assms] by blast
  show ?thesis by (auto simp: JWSSigner_sign_def Let_def e' split: jsval.splits)
qed

lemma sign_resolution_failure:
  assumes "Inl e \<in> set signatories"
  shows "(\<exists>e'. Inl e' \<in> set signatories \<and>
            sr_result (JWSSigner_sign E signatories False (JObj d)) = Inl e') \<and>
         sr_requests (JWSSigner_sign E signatories False (JObj d)) = [] \<and>
         sr_data (JWSSigner_sign E signatories False (JObj d)) =
           JObj (set_prop d reserved (JObj []))"
proof -
  obtain e' where e': "promise_all signatories = Inl e'"
    using promise_all_fails [OF assms] by blast
  have "Inl e' \<in> set signatories" using promise_all_Inl_mem [OF e'] .
  then show ?thesis by (auto simp: JWSSigner_sign_def Let_def e')
qed

lemma sign_signing_failure:
  assumes ss: "promise_all signatories = Inr ss"
    and r: "r \<in> set (sr_requests (JWSSigner_sign E signatories False (JObj d)))"
    and fail: "key_sign (r_key r) (r_alg r) (r_tbs r) (r_header r) = Inl e"
  shows "(\<exists>e' r'. r' \<in> set (sr_requests (JWSSigner_sign E signatories False (JObj d))) \<and>
            key_sign (r_key r') (r_alg r') (r_tbs r') (r_header r') = Inl e' \<and>
            sr_result (JWSSigner_sign E signatories False (JObj d)) = Inl e') \<and>
         sr_data (JWSSigner_sign E signatories False (JObj d)) =
           JObj (set_prop d reserved
                   (JObj (if length ss = 1 then s_header (hd ss)
                          else set_prop (globalHeaders (map s_header ss)) ''signers''
                                 (JArr [JObj (omit (s_header (last ss))
                                          (''signers'' # object_keys (globalHeaders (map s_header ss))))]))))"
proof -
  let ?run = "JWSSigner_sign E signatories False (JObj d)"
  let ?d1 = "set_prop d reserved (JObj [])"
  let ?g = "globalHeaders (map s_header ss)"
  have ne: "sr_requests ?run \<noteq> []" using r by auto
  obtain d2 g reqs where
    sm: "sign_map E (length ss) (?d1, ?g) ss = ((d2, g), reqs)"
    by (cases "sign_map E (length ss) (?d1, ?g) ss") auto
  have reqs: "sr_requests ?run = reqs"
    by (simp add: JWSSigner_sign_def Let_def ss sm split: sum.splits)
  have "Inl e \<in> set (map (sign_complete E) reqs)"
    using r fail reqs sign_complete_Inl [of E r e] by force
  then obtain e' where e': "promise_all (map (sign_complete E) reqs) = Inl e'"
    using promise_all_fails by blast
  then have "Inl e' \<in> set (map (sign_complete E) reqs)" by (rule promise_all_Inl_mem)
  then obtain r' where r': "r' \<in> set reqs" "sign_complete E r' = Inl e'" by force
  have res: "sr_result ?run = Inl e'" and dat: "sr_data ?run = JObj d2"
    by (simp_all add: JWSSigner_sign_def Let_def ss sm e')
  have "length reqs = length ss" using sm by (rule sign_map_length)
  then have nonempty: "ss \<noteq> []" using ne reqs by auto
  have d2: "d2 = set_prop d reserved
                   (JObj (if length ss = 1 then s_header (hd ss)
                          else set_prop ?g ''signers''
                                 (JArr [JObj (omit (s_header (last ss))
                                          (''signers'' # object_keys ?g))])))"
  proof (cases "length ss = 1")
    case True
    then obtain s where s: "ss = [s]" by (cases ss) auto
    have "fst (fst (sign_map E (length ss) (?d1, ?g) ss)) =
          set_prop ?d1 reserved (JObj (s_header s))"
      unfolding s by (simp add: sign_one_def sign_snapshot_def Let_def)
    then have "d2 = set_prop ?d1 reserved (JObj (s_header s))" by (simp add: sm)
    then show ?thesis using s by simp
  next
    case False
    have "length ss \<noteq> 0" using nonempty by simp
    then have two: "2 \<le> length ss" using False by arith
    have "d2 = fst (fst (sign_map E (length ss) (?d1, ?g) ss))" using sm by simp
    then show ?thesis using False sign_map_last_block [OF False two, of E ?d1 ?g] by simp
  qed
  show ?thesis
    using r' res dat d2 reqs sign_complete_Inl by auto
qed

lemma sign_map_content: "content (fst (fst (sign_map E n (data, g) ss))) = content data"
proof (cases ss)
  case Nil
  then show ?thesis by simp
next
  case (Cons s ss')
  obtain b X where "fst (sign_map E n (data, g) (s # ss')) =
     (set_prop data reserved (JObj b), if n = 1 then g else set_prop g ''signers'' X)"
    using sign_map_state by blast
  then show ?thesis using Cons by simp
qed

lemma sign_failure_content:
  assumes "sr_result (JWSSigner_sign E signatories False (JObj d)) = Inl e"
  shows "\<exists>d'. sr_data (JWSSigner_sign E signatories False (JObj d)) = JObj d' \<and>
              content d' = content d"
proof (cases "promise_all signatories")
  case (Inl e')
  then show ?thesis by (simp add: JWSSigner_sign_def Let_def)
next
  case (Inr ss)
  let ?d1 = "set_prop d reserved (JObj [])"
  obtain d2 g reqs where
    sm: "sign_map E (length ss) (?d1, globalHeaders (map s_header ss)) ss = ((d2, g), reqs)"
    by (cases "sign_map E (length ss) (?d1, globalHeaders (map s_header ss)) ss") auto
  have "content d2 = content ?d1"
    using sign_map_content [of E "length ss" ?d1 "globalHeaders (map s_header ss)" ss]
    by (simp add: sm)
  then have c: "content d2 = content d" by simp
  show ?thesis
    using assms c
    by (auto simp: JWSSigner_sign_def Let_def Inr sm split: sum.splits)
qed

section \<open>The state of the verification chains\<close>

lemma verify_snapshot_after:
  "verify_snapshot n d s = Inr d' \<Longrightarrow> verify_snapshot n d' t = verify_snapshot n d t"
  by (auto simp: verify_snapshot_def assign_prop_twice split: if_splits sum.splits)

lemma verify_snapshot_after_others:
  "verify_snapshot n (snapshots_applied n data others) signee = verify_snapshot n data signee"
proof (induction others arbitrary: data)
  case Nil
  then show ?case by (simp add: snapshots_applied_def)
next
  case (Cons s others)
  have step: "snapshots_applied n data (s # others) =
      snapshots_applied n (case verify_snapshot n data s of Inl e \<Rightarrow> data | Inr d' \<Rightarrow> d') others"
    by (simp add: snapshots_applied_def)
  show ?case
    unfolding step using Cons.IH verify_snapshot_after
    by (cases "verify_snapshot n data s") auto
qed



lemma verify_started_all:
  "verify_map E opts a st block sigs = Inr ps \<Longrightarrow> verify_started E opts a st block sigs = ps"
  by (induction sigs arbitrary: ps) (auto split: sum.splits)






section \<open>Facts about the resolution of signatories\<close>

lemma createSign_from_nth:
  "createSign_from E allFields idx signList = Inr ps \<Longrightarrow> i < length signList \<Longrightarrow>
     length ps = length signList \<and>
     createSign_entry E allFields (idx + i) (signList ! i) = Inr (ps ! i)"
proof (induction signList arbitrary: idx ps i)
  case Nil
  then show ?case by simp
next
  case (Cons s ss)
  obtain p where p: "createSign_entry E allFields idx s = Inr p"
    using Cons.prems(1) by (cases "createSign_entry E allFields idx s") auto
  obtain ps' where ps': "createSign_from E allFields (Suc idx) ss = Inr ps'"
    using Cons.prems(1) p by (cases "createSign_from E allFields (Suc idx) ss") auto
  have ps: "ps = p # ps'" using Cons.prems(1) p ps' by simp
  show ?case
  proof (cases i)
    case 0
    have "length ps' = length ss"
    proof (cases ss)
      case Nil
      then show ?thesis using ps' by simp
    next
      case (Cons a list)
      then show ?thesis using Cons.IH [OF ps', of 0] by simp
    qed
    then show ?thesis using 0 p ps by simp
  next
    case (Suc j)
    then have "j < length ss" using Cons.prems(2) by simp
    from Cons.IH [OF ps' this] show ?thesis using Suc ps by simp
  qed
qed

lemma resolve_jwk_oct:
  "key_kty k = ''oct'' \<Longrightarrow>
     resolve_signatory allFields k hdr (RefString ''jwk'') = Inl (Error ''cannot embed key'')"
  by (simp add: resolve_signatory_def Let_def key_reference_def)

lemma resolve_oct_keeps_jwk:
  assumes "key_kty k = ''oct''" and "resolve_signatory allFields k hdr ref = Inr s"
  shows "get_prop (s_header s) ''jwk'' =
         get_prop (merge_props (merge_props [] allFields)
                     (case hdr of None \<Rightarrow> [] | Some h \<Rightarrow> h)) ''jwk''"
  using assms
  by (auto simp: resolve_signatory_def Let_def split: option.splits if_splits)

section \<open>The global headers of three signers\<close>

text \<open>
  C1.  The global header set should hold every field that all signers share with the
  same value, for any number of signers.  Two signers with the headers
  \<^verbatim>\<open>{alg: "HS256", kid: "X"}\<close> get both fields as global headers.  With three such
  signers the fold compares the boolean of the first comparison with the third value,
  and no field is global.
\<close>

theorem globalHeaders_of_three_equal_headers:
  "globalHeaders [header_X, header_X] = header_X \<and>
   globalHeaders [header_X, header_X, header_X] = []"
  by code_simp

section \<open>A round trip with one signer\<close>

text \<open>
  C2.  Verifying what \<^verbatim>\<open>sign\<close> produced with valid keys should give \<^verbatim>\<open>valid == true\<close> on
  every signer's entry and leave the content fields as they were.  With the two signers
  \<open>A\<close> and \<open>B\<close> this is what happens.  With the signer \<open>A\<close> alone, \<^verbatim>\<open>sign\<close> gives
  \<open>signed_by_A\<close> and \<^verbatim>\<open>verify\<close> resolves with that very document: the entry of the signer
  has no \<^verbatim>\<open>valid\<close> at all.
\<close>

theorem round_trip_of_one_signer_has_no_valid_flag:
  "(case sr_result (JWSSigner_sign plain_env [Inr signer_A] False document_1) of
      Inl e \<Rightarrow> False
    | Inr d \<Rightarrow>
        d = signed_by_A \<and>
        vr_result (JWSVerifier_verify plain_env DEFAULT_OPTIONS verifier_AB (JObj d) None) =
          Resolves d \<and>
        get_prop (own_props (get_prop d reserved)) ''valid'' = JUndef) \<and>
   (case sr_result (JWSSigner_sign plain_env [Inr signer_A, Inr signer_B] False document_1) of
      Inl e \<Rightarrow> False
    | Inr d \<Rightarrow>
        (case vr_result (JWSVerifier_verify plain_env DEFAULT_OPTIONS verifier_AB (JObj d) None) of
           Resolves d' \<Rightarrow>
             content d' = [(''a'', JNum 1)] \<and>
             (case get_prop (own_props (get_prop d' reserved)) ''signers'' of
                JArr xs \<Rightarrow>
                  map (\<lambda>x. get_prop (own_props x) ''valid'') xs = [JBool True, JBool True]
              | _ \<Rightarrow> False)
         | _ \<Rightarrow> False))"
  by code_simp

section \<open>A disallowed algorithm\<close>

text \<open>
  C3.  A failure of one signer should be written on the signer's entry and never reject
  the call.  The document \<open>signed_RS256\<close> verified with \<^verbatim>\<open>{algorithms: "HS256"}\<close> makes
  the call reject with the error of the disallowed algorithm.  A key that cannot be
  resolved, in \<open>signed_by_Z\<close>, is written on the entry as the claim says.
\<close>

theorem disallowed_algorithm_rejects_verify:
  "vr_result (JWSVerifier_verify plain_env DEFAULT_OPTIONS verifier_AB (JObj signed_RS256)
      (Some [(''algorithms'', JStr ''HS256'')]))
     = Rejects (Error ''Algorithm not allowed: RS256'') \<and>
   vr_result (JWSVerifier_verify plain_env DEFAULT_OPTIONS verifier_AB (JObj signed_by_Z) None)
     = Resolves
         (set_prop signed_by_Z reserved
            (JObj [(''alg'', JStr ''HS256''), (''kid'', JStr ''Z''), (''signature'', JStr ''sz''),
                   (''valid'', JBool False), (''message'', JStr ''Key does not match'')]))"
  by code_simp

section \<open>A failed signature leaves the document changed\<close>

text \<open>
  C4, as stated: when a signatory fails the caller's document is left without a partly
  filled reserved field.  The signer \<open>F\<close> has a key that fails to sign: the call rejects
  with its error, and the caller's document has got a reserved field with the global
  header and one signer entry without a signature.
\<close>

theorem failed_signature_leaves_partial_field_counterexample:
  "sr_result (JWSSigner_sign plain_env [Inr signer_A, Inr signer_F] False document_1)
     = Inl (Error ''sign failed'') \<and>
   sr_data (JWSSigner_sign plain_env [Inr signer_A, Inr signer_F] False document_1)
     = JObj [(''a'', JNum 1),
             (reserved, JObj [(''alg'', JStr ''HS256''),
                              (''signers'', JArr [JObj [(''kid'', JStr ''F'')]])])]"
  by code_simp

text \<open>
  C4, amended.  On a fresh signer and an object \<open>d\<close>: when a signatory fails to resolve,
  the call rejects with the error of a failed signatory, no key is asked to sign, and
  the caller's document is \<open>d\<close> with the empty placeholder in the reserved field.  When
  all signatories resolve and a key fails to sign, the call rejects with the error of a
  failed key, and the caller's document is \<open>d\<close> with an unsigned header block in the
  reserved field: the header of the signer when there is one, else the global headers
  with a \<^verbatim>\<open>signers\<close> list that holds the own header fields of the last signer alone.
  Whenever the call rejects, the content fields of the caller's document are those of
  \<open>d\<close>.
\<close>

theorem sign_failure_rewrites_reserved_field:
  "(Inl e \<in> set signatories \<longrightarrow>
      (\<exists>e'. Inl e' \<in> set signatories \<and>
         sr_result (JWSSigner_sign E signatories False (JObj d)) = Inl e') \<and>
      sr_requests (JWSSigner_sign E signatories False (JObj d)) = [] \<and>
      sr_data (JWSSigner_sign E signatories False (JObj d)) =
        JObj (set_prop d reserved (JObj []))) \<and>
   (promise_all signatories = Inr ss \<and>
    r \<in> set (sr_requests (JWSSigner_sign E signatories False (JObj d))) \<and>
    key_sign (r_key r) (r_alg r) (r_tbs r) (r_header r) = Inl e2 \<longrightarrow>
      (\<exists>e' r'. r' \<in> set (sr_requests (JWSSigner_sign E signatories False (JObj d))) \<and>
         key_sign (r_key r') (r_alg r') (r_tbs r') (r_header r') = Inl e' \<and>
         sr_result (JWSSigner_sign E signatories False (JObj d)) = Inl e') \<and>
      sr_data (JWSSigner_sign E signatories False (JObj d)) =
        JObj (set_prop d reserved
                (JObj (if length ss = 1 then s_header (hd ss)
                       else set_prop (globalHeaders (map s_header ss)) ''signers''
                              (JArr [JObj (omit (s_header (last ss))
                                       (''signers'' #
                                        object_keys (globalHeaders (map s_header ss))))]))))) \<and>
   (sr_result (JWSSigner_sign E signatories False (JObj d)) = Inl e3 \<longrightarrow>
      (\<exists>d'. sr_data (JWSSigner_sign E signatories False (JObj d)) = JObj d' \<and>
            content d' = content d))"
  using sign_resolution_failure [of e signatories E d]
    sign_signing_failure [where signatories = signatories and ss = ss and r = r and E = E
      and d = d and e = e2]
    sign_failure_content [of E signatories d e3]
  by blast

theorem sign_failure_rewrites_reserved_field_witness:
  "Inl (Error ''missing key for signatory 1'')
     \<in> set [Inr signer_A, Inl (Error ''missing key for signatory 1'')] \<and>
   sr_requests (JWSSigner_sign plain_env
      [Inr signer_A, Inl (Error ''missing key for signatory 1'')] False
      (JObj [(''a'', JNum 1)])) = [] \<and>
   sr_data (JWSSigner_sign plain_env
      [Inr signer_A, Inl (Error ''missing key for signatory 1'')] False
      (JObj [(''a'', JNum 1)])) = JObj [(''a'', JNum 1), (reserved, JObj [])] \<and>
   promise_all [Inr signer_A, Inr signer_F] = Inr [signer_A, signer_F] \<and>
   sr_requests (JWSSigner_sign plain_env [Inr signer_A, Inr signer_F] False
      (JObj [(''a'', JNum 1)])) ! 1
     \<in> set (sr_requests (JWSSigner_sign plain_env [Inr signer_A, Inr signer_F] False
               (JObj [(''a'', JNum 1)]))) \<and>
   sr_data (JWSSigner_sign plain_env [Inr signer_A, Inr signer_F] False
      (JObj [(''a'', JNum 1)])) =
     JObj [(''a'', JNum 1),
           (reserved, JObj [(''alg'', JStr ''HS256''),
                            (''signers'', JArr [JObj [(''kid'', JStr ''F'')]])])]"
proof -
  let ?bad = "[Inr signer_A, Inl (Error ''missing key for signatory 1'')]"
  let ?run = "JWSSigner_sign plain_env [Inr signer_A, Inr signer_F] False (JObj [(''a'', JNum 1)])"
  let ?r = "sr_requests ?run ! 1"
  let ?ss = "[signer_A, signer_F]"
  let ?block = "if length ?ss = 1 then s_header (hd ?ss)
                else set_prop (globalHeaders (map s_header ?ss)) ''signers''
                       (JArr [JObj (omit (s_header (last ?ss))
                                (''signers'' # object_keys (globalHeaders (map s_header ?ss))))])"
  have h1: "Inl (Error ''missing key for signatory 1'') \<in> set ?bad" by simp
  have h0: "promise_all [Inr signer_A, Inr signer_F] = Inr ?ss" by simp
  have len: "length (sr_requests ?run) = 2" by code_simp
  have h2: "?r \<in> set (sr_requests ?run)" using len by simp
  have h3: "key_sign (r_key ?r) (r_alg ?r) (r_tbs ?r) (r_header ?r) = Inl (Error ''sign failed'')"
    by code_simp
  have a: "sr_requests (JWSSigner_sign plain_env ?bad False (JObj [(''a'', JNum 1)])) = [] \<and>
      sr_data (JWSSigner_sign plain_env ?bad False (JObj [(''a'', JNum 1)])) =
        JObj (set_prop [(''a'', JNum 1)] reserved (JObj []))"
    using sign_failure_rewrites_reserved_field
      [where e = "Error ''missing key for signatory 1''" and signatories = ?bad
         and E = plain_env and d = "[(''a'', JNum 1)]"] h1
    by blast
  have b: "sr_data ?run = JObj (set_prop [(''a'', JNum 1)] reserved (JObj ?block))"
    using sign_failure_rewrites_reserved_field
      [where r = ?r and signatories = "[Inr signer_A, Inr signer_F]" and ss = ?ss
         and E = plain_env and d = "[(''a'', JNum 1)]" and ?e2.0 = "Error ''sign failed''"]
      h0 h2 h3
    by blast
  have block: "?block =
      [(''alg'', JStr ''HS256''), (''signers'', JArr [JObj [(''kid'', JStr ''F'')]])]"
    by code_simp
  have sp: "\<And>v. set_prop [(''a'', JNum 1)] reserved v = [(''a'', JNum 1), (reserved, v)]"
    by (simp add: reserved_def)
  have b': "sr_data ?run =
      JObj [(''a'', JNum 1),
            (reserved, JObj [(''alg'', JStr ''HS256''),
                             (''signers'', JArr [JObj [(''kid'', JStr ''F'')]])])]"
    using b unfolding block sp .
  show ?thesis using h1 h0 h2 a b' unfolding sp by blast
qed

section \<open>The bytes of a signer do not hold its signature\<close>




section \<open>The write-back for one signer\<close>

text \<open>
  C6.  After \<^verbatim>\<open>verify\<close> every signer entry should carry a \<^verbatim>\<open>valid\<close> flag, whatever the
  number of signers.  With one signer the handler of a key's answer writes nothing to
  the caller's document, whatever the answer.  For \<open>signed_by_A\<close> the key answers that
  the signature is valid, and \<^verbatim>\<open>verify\<close> resolves with the document as it was, which
  has no \<^verbatim>\<open>valid\<close>.  With two signers each entry gets its flag from the same handler
  (here \<^verbatim>\<open>false\<close>: the signatures of \<open>two_signers\<close> are not genuine).
\<close>

theorem single_signer_success_writes_no_flag:
  "write_back 1 index input (Verified v) = Inr input \<and>
   vr_result (JWSVerifier_verify plain_env DEFAULT_OPTIONS verifier_AB (JObj signed_by_A) None)
     = Resolves signed_by_A \<and>
   map (\<lambda>q. key_verify (q_key q) (q_alg q) (q_tbv q) (q_signature q))
     (vr_requests (JWSVerifier_verify plain_env DEFAULT_OPTIONS verifier_AB (JObj signed_by_A) None))
     = [Inr True] \<and>
   \<not> has_prop (own_props (get_prop signed_by_A reserved)) ''valid'' \<and>
   vr_result (JWSVerifier_verify plain_env DEFAULT_OPTIONS verifier_AB (JObj two_signers) None)
     = Resolves
         [(''a'', JNum 1),
          (reserved, JObj
             [(''alg'', JStr ''HS256''),
              (''signers'', JArr
                 [JObj [(''kid'', JStr ''A''), (''signature'', JStr ''sa''), (''valid'', JBool False)],
                  JObj [(''kid'', JStr ''B''), (''signature'', JStr ''sb''), (''valid'', JBool False)]])])]"
  by (rule conjI) (simp add: write_back_def, code_simp)

section \<open>The embedded key\<close>

text \<open>
  C7.  With \<^verbatim>\<open>allowEmbeddedKey\<close> and a header that carries \<^verbatim>\<open>jwk\<close>, the key should be built
  from that embedded key.  For the signer record \<open>sig_with_jwk\<close> the key factory is
  called with \<^verbatim>\<open>undefined\<close>, whatever the environment and the key store: with the
  factory of \<open>plain_env\<close> that is a rejection, where the embedded key itself would have
  given a key.
\<close>

theorem getAlgKey_ignores_embedded_jwk:
  "getAlgKey E [(''algorithms'', JStr ''*''), (''allowEmbeddedKey'', JBool True)]
     sig_with_jwk None store = some_key (asKey E JUndef) \<and>
   asKey plain_env JUndef = Rejects (Error ''unsupported key type'') \<and>
   asKey plain_env (get_prop (sig_header sig_with_jwk) ''jwk'') = Resolves (name_key ''RSA'' ''A'')"
  by (simp add: getAlgKey_def sig_with_jwk_def get_prop_def embedded_jwk_def plain_env_def
        plain_asKey_def)

section \<open>The shared documents of a call\<close>

text \<open>
  C8, as stated: no document that the computation of another signer reads is changed
  in place.  In a \<^verbatim>\<open>verify\<close> call on \<open>two_signers\<close> the chain of the first signer leaves
  a scratch copy that differs from the one it got, and the second signer starts from it.
  In \<^verbatim>\<open>sign\<close> the pass of a signer changes the caller's document.
\<close>

theorem shared_document_is_rewritten_counterexample:
  "(case verify_map plain_env (call_options DEFAULT_OPTIONS None) None (name_store [''A'', ''B''])
           (get_prop two_signers reserved)
           [JObj [(''kid'', JStr ''A''), (''signature'', JStr ''sa'')],
            JObj [(''kid'', JStr ''B''), (''signature'', JStr ''sb'')]] of
      Inl e \<Rightarrow> False
    | Inr ps \<Rightarrow> fst (verify_chain plain_env 2 two_signers (hd ps)) \<noteq> two_signers) \<and>
   fst (fst (sign_one plain_env 2
               ([(''a'', JNum 1), (reserved, JObj [])], [(''alg'', JStr ''HS256'')]) signer_A))
     \<noteq> [(''a'', JNum 1), (reserved, JObj [])]"
  by code_simp

text \<open>
  C8, amended.  The signers of a call share one document, which each rewrites in place
  and serialises in the same step.  When verifying, the snapshot a signer takes of the
  scratch copy is the same after any snapshots of other signers, in any order, as on
  the fresh copy.  When signing, the request of a signer that is not the first
  (document, bytes and own header fields) is the same whichever signers were handled
  before it.
\<close>

theorem snapshot_does_not_depend_on_other_signers:
  "verify_snapshot n (snapshots_applied n data others) signee = verify_snapshot n data signee \<and>
   (before \<noteq> [] \<and> before' \<noteq> [] \<longrightarrow>
      snd (sign_one E m (fst (sign_map E m (doc, g) before)) s) =
      snd (sign_one E m (fst (sign_map E m (doc, g) before')) s))"
  using verify_snapshot_after_others [of n data others signee]
    sign_one_after_any_signers [of before before' E m doc g s]
  by blast

theorem snapshot_does_not_depend_on_other_signers_witness:
  "[signer_A] \<noteq> [] \<and> [signer_B, signer_A] \<noteq> [] \<and>
   verify_snapshot 2 (snapshots_applied 2 two_signers [[(''kid'', JStr ''A'')]]) [(''kid'', JStr ''B'')]
     = verify_snapshot 2 two_signers [(''kid'', JStr ''B'')] \<and>
   snd (sign_one plain_env 3
          (fst (sign_map plain_env 3
                  ([(''a'', JNum 1), (reserved, JObj [])], [(''alg'', JStr ''HS256'')])
                  [signer_A])) signer_B) =
   snd (sign_one plain_env 3
          (fst (sign_map plain_env 3
                  ([(''a'', JNum 1), (reserved, JObj [])], [(''alg'', JStr ''HS256'')])
                  [signer_B, signer_A])) signer_B)"
  using snapshot_does_not_depend_on_other_signers
    [where n = 2 and data = two_signers and others = "[[(''kid'', JStr ''A'')]]"
       and signee = "[(''kid'', JStr ''B'')]" and before = "[signer_A]"
       and before' = "[signer_B, signer_A]" and E = plain_env and m = 3
       and doc = "[(''a'', JNum 1), (reserved, JObj [])]" and g = "[(''alg'', JStr ''HS256'')]"
       and s = signer_B]
  by simp

section \<open>Embedding a symmetric key\<close>

text \<open>
  C9.  A signatory that asks for the reference \<^verbatim>\<open>jwk\<close> with a key of type \<^verbatim>\<open>oct\<close> is
  rejected with the error \<^verbatim>\<open>cannot embed key\<close>.  A signer created from a list with such
  a signatory rejects \<^verbatim>\<open>sign\<close> without asking any key for a signature.  And whatever the
  reference asked for, the \<^verbatim>\<open>jwk\<close> field of the resolved header of a symmetric key is the
  one of the caller's own header fields: the key is never copied there.
\<close>

theorem embedding_symmetric_key_is_rejected:
  assumes "asKey E j = Resolves k" and "key_kty k = ''oct''"
  shows "createSign_entry E allFields idx (Descriptor j hdr (RefString ''jwk'')) =
           Inr (Inl (Error ''cannot embed key'')) \<and>
         (\<forall>signList ps i E' fin data.
            createSign E allFields signList = Inr ps \<and> i < length signList \<and>
            signList ! i = Descriptor j hdr (RefString ''jwk'') \<longrightarrow>
              sr_requests (JWSSigner_sign E' ps fin data) = [] \<and>
              (\<exists>e. sr_result (JWSSigner_sign E' ps fin data) = Inl e)) \<and>
         (\<forall>ref s. resolve_signatory allFields k hdr ref = Inr s \<longrightarrow>
            get_prop (s_header s) ''jwk'' =
            get_prop (merge_props (merge_props [] allFields)
                        (case hdr of None \<Rightarrow> [] | Some h \<Rightarrow> h)) ''jwk'')"
proof -
  have entry: "\<And>idx. createSign_entry E allFields idx (Descriptor j hdr (RefString ''jwk'')) =
           Inr (Inl (Error ''cannot embed key''))"
    by (simp add: createSign_entry_def assms resolve_jwk_oct)
  have sign: "sr_requests (JWSSigner_sign E' ps fin data) = [] \<and>
              (\<exists>e. sr_result (JWSSigner_sign E' ps fin data) = Inl e)"
    if cs: "createSign E allFields signList = Inr ps" and i: "i < length signList"
      and d: "signList ! i = Descriptor j hdr (RefString ''jwk'')"
    for signList ps i E' fin data
  proof -
    have "length ps = length signList \<and>
          createSign_entry E allFields (0 + i) (signList ! i) = Inr (ps ! i)"
      using cs i unfolding createSign_def by (rule createSign_from_nth)
    then have "ps ! i = Inl (Error ''cannot embed key'')" and "i < length ps"
      using entry [of i] d i by simp_all
    then have "Inl (Error ''cannot embed key'') \<in> set ps" by (metis nth_mem)
    then show ?thesis by (rule sign_rejected_signatory)
  qed
  show ?thesis
    using entry sign resolve_oct_keeps_jwk [OF assms(2)] by blast
qed

theorem embedding_symmetric_key_is_rejected_witness:
  "asKey plain_env (JObj [(''kty'', JStr ''oct''), (''kid'', JStr ''A'')]) =
     Resolves (name_key ''oct'' ''A'') \<and>
   key_kty (name_key ''oct'' ''A'') = ''oct'' \<and>
   createSign_entry plain_env [] 0
     (Descriptor (JObj [(''kty'', JStr ''oct''), (''kid'', JStr ''A'')]) None (RefString ''jwk'')) =
     Inr (Inl (Error ''cannot embed key''))"
proof -
  have h1: "asKey plain_env (JObj [(''kty'', JStr ''oct''), (''kid'', JStr ''A'')]) =
     Resolves (name_key ''oct'' ''A'')"
    by (simp add: plain_env_def plain_asKey_def get_prop_def)
  have h2: "key_kty (name_key ''oct'' ''A'') = ''oct''"
    by (simp add: name_key_def)
  show ?thesis
    using embedding_symmetric_key_is_rejected [OF h1 h2, of "[]" 0 None] h1 h2 by blast
qed

section \<open>The default options of the module\<close>

text \<open>
  C10.  The default options should belong to each verifier.  Creating a first verifier
  with \<^verbatim>\<open>{allowEmbeddedKey: true}\<close> changes the object of the module, and a second
  verifier created afterwards without options verifies with \<^verbatim>\<open>allowEmbeddedKey\<close> set,
  where the defaults of the module say \<^verbatim>\<open>false\<close>.
\<close>

theorem constructor_options_change_the_module_defaults:
  "(case createVerify DEFAULT_OPTIONS NoKeys (Some [(''allowEmbeddedKey'', JBool True)]) of
      (module_opts, first) \<Rightarrow>
        (case createVerify module_opts NoKeys None of
           (module_opts', second) \<Rightarrow>
             get_prop (call_options DEFAULT_OPTIONS None) ''allowEmbeddedKey'' = JBool False \<and>
             get_prop (call_options module_opts' None) ''allowEmbeddedKey'' = JBool True))"
  by code_simp

end
